theory Spec2Isabelle
  imports Main "HOL-Library.Char_ord" "HOL-Library.List_Lexorder"
begin

section \<open>Python values and exceptions\<close>

text \<open>
  The values that reach \<^verbatim>\<open>pivot_register.py\<close>: identifying values are strings, integers,
  floats, or lists of them. A float is kept as a mantissa and an exponent; the code only
  tests its type and never computes with it.
\<close>

datatype pyval =
    PyNone
  | PyStr string
  | PyInt int
  | PyFloat int int
  | PyList "pyval list"

text \<open>
  Exceptions are values. \<open>NameError\<close> carries the \<^verbatim>\<open>args\<close> tuple it was raised with;
  \<open>AttributeError\<close> the attribute that was not found; \<open>UnboundLocalError\<close> (a subclass
  of \<open>NameError\<close> in Python) the local variable read before assignment;
  \<open>TypeError\<close> and \<open>ValueError\<close> the message of the interpreter or the library.
\<close>

datatype py_error =
    AttributeError string
  | NameError "string list"
  | UnboundLocalError string
  | TypeError string
  | ValueError string

fun is_NameError :: "py_error \<Rightarrow> bool" where
  "is_NameError (NameError _) = True"
| "is_NameError (UnboundLocalError _) = True"
| "is_NameError _ = False"

text \<open>Truth value of a data value, as \<^verbatim>\<open>bool(x)\<close> gives it.\<close>

fun py_bool :: "pyval \<Rightarrow> bool" where
  "py_bool PyNone = False"
| "py_bool (PyStr s) = (s \<noteq> [])"
| "py_bool (PyInt i) = (i \<noteq> 0)"
| "py_bool (PyFloat m e) = (m \<noteq> 0)"
| "py_bool (PyList xs) = (xs \<noteq> [])"

text \<open>
  A name between two apostrophes, as the f-string \<^verbatim>\<open>f"'{mtch}'"\<close> and the interpreter's
  messages write it.
\<close>

definition quoted :: "string \<Rightarrow> string" where
  "quoted mtch = [CHR 0x27] @ mtch @ [CHR 0x27]"

text \<open>\<^verbatim>\<open>type(x).__name__\<close>\<close>

fun type_name :: "pyval \<Rightarrow> string" where
  "type_name PyNone = ''NoneType''"
| "type_name (PyStr s) = ''str''"
| "type_name (PyInt i) = ''int''"
| "type_name (PyFloat m e) = ''float''"
| "type_name (PyList xs) = ''list''"

text \<open>
  Iterating a value, as a \<^verbatim>\<open>for\<close> clause does: a list yields its elements, a string its
  one-character strings, anything else raises \<open>TypeError\<close>.
\<close>

definition not_iterable :: "pyval \<Rightarrow> py_error" where
  "not_iterable v = TypeError (quoted (type_name v) @ '' object is not iterable'')"

fun py_iter :: "pyval \<Rightarrow> py_error + pyval list" where
  "py_iter (PyList xs) = Inr xs"
| "py_iter (PyStr s) = Inr (map (\<lambda>c. PyStr [c]) s)"
| "py_iter v = Inl (not_iterable v)"

text \<open>\<^verbatim>\<open>isinstance(qry_val, (str, int, float))\<close>\<close>

fun isinstance_str_int_float :: "pyval \<Rightarrow> bool" where
  "isinstance_str_int_float (PyStr s) = True"
| "isinstance_str_int_float (PyInt i) = True"
| "isinstance_str_int_float (PyFloat m e) = True"
| "isinstance_str_int_float _ = False"

text \<open>\<^verbatim>\<open>sep.join(xs)\<close>\<close>

fun join :: "string \<Rightarrow> string list \<Rightarrow> string" where
  "join sep [] = []"
| "join sep [x] = x"
| "join sep (x # y # ys) = x @ sep @ join sep (y # ys)"

section \<open>The entities module\<close>

text \<open>
  The module \<^verbatim>\<open>entities\<close> (\<^verbatim>\<open>..nbtools.entityschema\<close>) is supplied from outside. It is
  taken as its namespace: an association list from attribute names to attribute values,
  the first binding of a name being the one in force. An attribute is a class (or any
  other object whose truth value is always true) or a data value.
\<close>

datatype attr_value = PyClass string | PyData pyval

fun py_truth :: "attr_value \<Rightarrow> bool" where
  "py_truth (PyClass c) = True"
| "py_truth (PyData v) = py_bool v"

type_synonym module_ns = "(string \<times> attr_value) list"

text \<open>
  \<^verbatim>\<open>getattr(entities, entity_name)\<close>, with no default: a missing attribute raises
  \<open>AttributeError\<close>.
\<close>

definition getattr_entities :: "module_ns \<Rightarrow> string \<Rightarrow> py_error + attr_value" where
  "getattr_entities entities entity_name =
     (case map_of entities entity_name of
        None \<Rightarrow> Inl (AttributeError entity_name)
      | Some v \<Rightarrow> Inr v)"

text \<open>\<^verbatim>\<open>dir(entities)\<close>: the names of the namespace, each once, sorted.\<close>

definition dir_entities :: "module_ns \<Rightarrow> string list" where
  "dir_entities entities = sort (remdups (map fst entities))"

section \<open>Entity resolution\<close>

text \<open>
  The message built by \<^verbatim>\<open>_entity_class\<close> once the lookup's value was falsy, from the
  list of close matches and the list of legal names.
\<close>

definition entity_mssg :: "string \<Rightarrow> string list \<Rightarrow> string list \<Rightarrow> string" where
  "entity_mssg entity_name legal_entities closest =
     (entity_name @ '' is not a recognized entity name. '') @
     (if length closest = 1 then ''Closest match is '' @ quoted (closest ! 0)
      else if closest \<noteq> [] then ''Closest matches are '' @ join '', '' (map quoted closest)
      else ''Valid arguments are '' @ join '', '' legal_entities)"

text \<open>
  \<^verbatim>\<open>_entity_class(entity_name)\<close>. \<^verbatim>\<open>difflib.get_close_matches\<close> belongs to the standard
  library and is a parameter: a function from the word and the list of possibilities to
  the list of close matches.
\<close>

definition entity_class ::
  "module_ns \<Rightarrow> (string \<Rightarrow> string list \<Rightarrow> string list) \<Rightarrow> string \<Rightarrow> py_error + attr_value" where
  "entity_class entities get_close_matches entity_name =
     (case getattr_entities entities entity_name of
        Inl err \<Rightarrow> Inl err
      | Inr ent_cls \<Rightarrow>
          if py_truth ent_cls then Inr ent_cls
          else
            (let legal_entities = dir_entities entities;
                 closest = get_close_matches entity_name legal_entities
             in Inl (NameError [entity_name, entity_mssg entity_name legal_entities closest])))"

section \<open>Providers\<close>

text \<open>
  Keyword arguments are an association list. A provider (\<^verbatim>\<open>Callable[..., pd.DataFrame]\<close>)
  is called as \<^verbatim>\<open>qry_func(qry_val, **kwargs)\<close>; it may raise, and it may act on the world
  outside the registry, whose state \<open>'s\<close> it receives and returns. The table type \<open>'t\<close>
  is left open.
\<close>

type_synonym kwargs = "(string \<times> pyval) list"

type_synonym ('s, 't) provider = "pyval \<Rightarrow> kwargs \<Rightarrow> 's \<Rightarrow> (py_error + 't) \<times> 's"

section \<open>The batch adapter\<close>

text \<open>
  The list comprehension \<^verbatim>\<open>[qry_func(qry_val, **kwargs) for qry_val in qry_values]\<close> over the
  elements already obtained from the iterable: the calls are made from left to right, and
  the first one that raises ends the comprehension with its exception.
\<close>

fun list_comp ::
  "('s, 't) provider \<Rightarrow> kwargs \<Rightarrow> pyval list \<Rightarrow> 's \<Rightarrow> (py_error + 't list) \<times> 's" where
  "list_comp qry_func kwargs [] s = (Inr [], s)"
| "list_comp qry_func kwargs (qry_val # rest) s =
     (case qry_func qry_val kwargs s of
        (Inl err, s') \<Rightarrow> (Inl err, s')
      | (Inr tbl, s') \<Rightarrow>
          (case list_comp qry_func kwargs rest s' of
             (Inl err, s'') \<Rightarrow> (Inl err, s'')
           | (Inr tbls, s'') \<Rightarrow> (Inr (tbl # tbls), s'')))"

text \<open>
  \<^verbatim>\<open>_iterate_prov_query(qry_func, qry_values, **kwargs)\<close>, its parameters bound.
  \<^verbatim>\<open>pd.concat\<close> belongs to pandas and is a parameter, from the list of tables to the
  table or the exception it gives.
\<close>

definition iterate_prov_query ::
  "('t list \<Rightarrow> py_error + 't) \<Rightarrow> ('s, 't) provider \<Rightarrow> pyval \<Rightarrow> kwargs \<Rightarrow> 's \<Rightarrow>
   (py_error + 't) \<times> 's" where
  "iterate_prov_query pd_concat qry_func qry_values kwargs s =
     (case py_iter qry_values of
        Inl err \<Rightarrow> (Inl err, s)
      | Inr vals \<Rightarrow>
          (case list_comp qry_func kwargs vals s of
             (Inl err, s') \<Rightarrow> (Inl err, s')
           | (Inr tbls, s') \<Rightarrow> (pd_concat tbls, s')))"

text \<open>
  \<^verbatim>\<open>_value_to_df(qry_val)\<close>. \<^verbatim>\<open>pd.DataFrame\<close> is a parameter, from the data and the
  \<^verbatim>\<open>columns\<close> argument to the table or the exception it gives.
\<close>

definition value_to_df :: "(pyval \<Rightarrow> string \<Rightarrow> py_error + 't) \<Rightarrow> pyval \<Rightarrow> py_error + 't" where
  "value_to_df pd_DataFrame qry_val =
     pd_DataFrame (if isinstance_str_int_float qry_val then PyList [qry_val] else qry_val)
       ''qry_value''"

text \<open>
  To observe which calls a function receives, it is run on a world that is the list of the
  calls made so far: each call appends its arguments and returns the function's table.
\<close>

type_synonym call_log = "(pyval \<times> kwargs) list"

definition logging :: "(pyval \<Rightarrow> kwargs \<Rightarrow> 't) \<Rightarrow> (call_log, 't) provider" where
  "logging f qry_val kwargs calls = (Inr (f qry_val kwargs), calls @ [(qry_val, kwargs)])"

section \<open>Registrations\<close>

text \<open>
  The two callables \<^verbatim>\<open>register_provider\<close> can hold in \<^verbatim>\<open>qry_func\<close>: the provider's
  function itself, or the object \<^verbatim>\<open>partial(_iterate_prov_query, qry_func=qry_func)\<close>.
\<close>

datatype ('s, 't) callable =
    Provider "('s, 't) provider"
  | Partial_iterate_prov_query "('s, 't) provider"

text \<open>
  Calling the object \<^verbatim>\<open>partial(_iterate_prov_query, qry_func=f)\<close> with the positional
  arguments \<open>args\<close> and the keyword arguments \<open>kw\<close> calls
  \<^verbatim>\<open>_iterate_prov_query(*args, **{"qry_func": f, **kw})\<close>. The first positional argument
  would bind \<^verbatim>\<open>qry_func\<close>, which the keywords always give as well: any positional
  argument is refused. With none, \<^verbatim>\<open>qry_values\<close> must come by keyword, and a keyword
  \<^verbatim>\<open>qry_func\<close> of the caller replaces \<open>f\<close> by a value that cannot be called. The
  remaining keywords are the \<^verbatim>\<open>**kwargs\<close> of the call.
\<close>

definition call_partial ::
  "('t list \<Rightarrow> py_error + 't) \<Rightarrow> ('s, 't) provider \<Rightarrow> pyval list \<Rightarrow> kwargs \<Rightarrow> 's \<Rightarrow>
   (py_error + 't) \<times> 's" where
  "call_partial pd_concat f args kw s =
     (if args \<noteq> [] then
        (Inl (TypeError (''_iterate_prov_query() got multiple values for argument '' @
                quoted ''qry_func'')), s)
      else
        (case map_of kw ''qry_values'' of
           None \<Rightarrow>
             (Inl (TypeError (''_iterate_prov_query() missing 1 required positional argument: '' @
                     quoted ''qry_values'')), s)
         | Some qry_values \<Rightarrow>
             (case map_of kw ''qry_func'' of
                None \<Rightarrow>
                  iterate_prov_query pd_concat f qry_values
                    (filter (\<lambda>(k, v). k \<noteq> ''qry_func'' \<and> k \<noteq> ''qry_values'') kw) s
              | Some v \<Rightarrow>
                  (case py_iter qry_values of
                     Inl err \<Rightarrow> (Inl err, s)
                   | Inr [] \<Rightarrow> (pd_concat [], s)
                   | Inr (qry_val # rest) \<Rightarrow>
                       (Inl (TypeError (quoted (type_name v) @ '' object is not callable'')),
                        s)))))"

text \<open>A value of \<^verbatim>\<open>qry_entities\<close>: \<^verbatim>\<open>Union[str, Dict[str, Any]]\<close>.\<close>

datatype binding = KwName string | KwArgs kwargs

text \<open>
  \<^verbatim>\<open>PivotRegistration\<close>. The dictionaries are association lists in insertion order, which
  is the order in which Python iterates their keys.
\<close>

record ('s, 't) PivotRegistration =
  qry_name :: string
  qry_func :: "('s, 't) provider"
  prov_class :: "string option"
  schema :: "(string \<times> string) list"
  qry_entities :: "(string \<times> binding) list"
  multi_query_supported :: bool

text \<open>
  The constructor that \<^verbatim>\<open>attr.s(auto_attribs=True)\<close> generates: \<^verbatim>\<open>qry_name\<close> and
  \<^verbatim>\<open>qry_func\<close> are required, each later argument is \<open>None\<close> when the caller leaves it
  out and then takes its default.
\<close>

definition PivotRegistration_init ::
  "string \<Rightarrow> ('s, 't) provider \<Rightarrow> string option \<Rightarrow> (string \<times> string) list option \<Rightarrow>
   (string \<times> binding) list option \<Rightarrow> bool option \<Rightarrow> ('s, 't) PivotRegistration" where
  "PivotRegistration_init name func cls sch ents multi =
     \<lparr> qry_name = name,
       qry_func = func,
       prov_class = cls,
       schema = (case sch of None \<Rightarrow> [] | Some d \<Rightarrow> d),
       qry_entities = (case ents of None \<Rightarrow> [] | Some d \<Rightarrow> d),
       multi_query_supported = (case multi of None \<Rightarrow> True | Some b \<Rightarrow> b) \<rparr>"

section \<open>Registering a provider\<close>

text \<open>
  The local variables of \<^verbatim>\<open>register_provider\<close> that the loop assigns; \<open>None\<close> is a
  variable not yet bound.
\<close>

record ('s, 't) locals =
  loc_entity :: "string option"
  loc_qry_func :: "('s, 't) callable option"

definition loop_body ::
  "('s, 't) PivotRegistration \<Rightarrow> string \<Rightarrow> ('s, 't) locals \<Rightarrow> ('s, 't) locals" where
  "loop_body prov entity fr =
     \<lparr> loc_entity = Some entity,
       loc_qry_func =
         Some (if \<not> multi_query_supported prov
               then Partial_iterate_prov_query (qry_func prov)
               else Provider (qry_func prov)) \<rparr>"

text \<open>The \<^verbatim>\<open>for entity in prov.qry_entities\<close> loop, run to its end.\<close>

definition provider_loop :: "('s, 't) PivotRegistration \<Rightarrow> ('s, 't) locals" where
  "provider_loop prov =
     fold (loop_body prov) (map fst (qry_entities prov))
       \<lparr> loc_entity = None, loc_qry_func = None \<rparr>"

text \<open>
  \<^verbatim>\<open>register_provider(prov)\<close>. After the loop it reads \<^verbatim>\<open>entity\<close>, resolves it, and calls
  \<^verbatim>\<open>set_attr()\<close>, a name that the module neither defines nor imports and that is no
  builtin: reaching the call raises \<open>NameError\<close>. The function has no \<^verbatim>\<open>return\<close>; \<open>Inr ()\<close>
  would be its normal end.
\<close>

definition set_attr_undefined :: py_error where
  "set_attr_undefined = NameError [''name '' @ quoted ''set_attr'' @ '' is not defined'']"

definition register_provider ::
  "module_ns \<Rightarrow> (string \<Rightarrow> string list \<Rightarrow> string list) \<Rightarrow> ('s, 't) PivotRegistration \<Rightarrow>
   py_error + unit" where
  "register_provider entities get_close_matches prov =
     (case loc_entity (provider_loop prov) of
        None \<Rightarrow> Inl (UnboundLocalError ''entity'')
      | Some entity \<Rightarrow>
          (case entity_class entities get_close_matches entity of
             Inl err \<Rightarrow> Inl err
           | Inr tgt_entity \<Rightarrow> Inl set_attr_undefined))"

section \<open>Concrete inputs\<close>

text \<open>
  A namespace with two entity classes and a \<^verbatim>\<open>__doc__\<close> attribute bound to \<^verbatim>\<open>None\<close>, as
  in a module that has no docstring.
\<close>

definition example_entities :: module_ns where
  "example_entities =
     [(''Host'', PyClass ''Host''), (''IpAddress'', PyClass ''IpAddress''),
      (''__doc__'', PyData PyNone)]"

text \<open>
  A function that returns the possibilities equal to the word. It stands for
  \<^verbatim>\<open>get_close_matches\<close> where a closed term is needed; none of the calls evaluated below
  reaches it.
\<close>

definition exact_matches :: "string \<Rightarrow> string list \<Rightarrow> string list" where
  "exact_matches word possibilities = filter (\<lambda>p. p = word) possibilities"

text \<open>
  Tables as lists of rows, a provider function that answers every value with the one-row
  table holding that value, and row-wise concatenation, which refuses the empty list as
  \<^verbatim>\<open>pd.concat\<close> does.
\<close>

definition echo_table :: "pyval \<Rightarrow> kwargs \<Rightarrow> pyval list" where
  "echo_table qry_val kwargs = [qry_val]"

definition concat_rows :: "pyval list list \<Rightarrow> py_error + pyval list" where
  "concat_rows tbls =
     (if tbls = [] then Inl (ValueError ''No objects to concatenate'') else Inr (concat tbls))"

text \<open>
  Three registrations named \<^verbatim>\<open>whois\<close>: one binding \<^verbatim>\<open>Host\<close> and the unknown name
  \<^verbatim>\<open>Bogus\<close>; one binding two known entities for a provider that takes one value at a
  time; one binding \<^verbatim>\<open>IpAddress\<close> for a batch-capable provider.
\<close>

definition host_bogus_registration :: "(call_log, pyval list) PivotRegistration" where
  "host_bogus_registration =
     PivotRegistration_init ''whois'' (logging echo_table) None None
       (Some [(''Host'', KwName ''hostname''), (''Bogus'', KwName ''x'')]) None"

definition host_ip_registration :: "(call_log, pyval list) PivotRegistration" where
  "host_ip_registration =
     PivotRegistration_init ''whois'' (logging echo_table) None None
       (Some [(''Host'', KwName ''hostname''), (''IpAddress'', KwName ''ip'')]) (Some False)"

definition ip_registration :: "(call_log, pyval list) PivotRegistration" where
  "ip_registration =
     PivotRegistration_init ''whois'' (logging echo_table) None None
       (Some [(''IpAddress'', KwName ''ip'')]) (Some True)"

section \<open>Properties of the model\<close>

subsection \<open>The comprehension and the loop\<close>

lemma list_comp_logging:
  "list_comp (logging f) kwargs vals calls =
     (Inr (map (\<lambda>v. f v kwargs) vals), calls @ map (\<lambda>v. (v, kwargs)) vals)"
  by (induction vals arbitrary: calls) (simp_all add: logging_def)

text \<open>
  The body of \<^verbatim>\<open>_iterate_prov_query\<close>, its parameters bound: for a function \<open>f\<close> that
  answers every value with a table, it calls \<open>f\<close> once per value of the list, in order,
  and returns what \<^verbatim>\<open>pd.concat\<close> gives for the tables of these calls, in the same order.
\<close>

lemma iterate_prov_query_calls_each_value_in_order:
  "iterate_prov_query pd_concat (logging f) (PyList vals) kwargs calls =
     (pd_concat (map (\<lambda>v. f v kwargs) vals), calls @ map (\<lambda>v. (v, kwargs)) vals)"
  by (simp add: iterate_prov_query_def list_comp_logging)

text \<open>
  The partial object reaches \<^verbatim>\<open>_iterate_prov_query\<close> with the values only when they are
  passed as the keyword \<^verbatim>\<open>qry_values\<close>; passed as a positional argument they are refused.
\<close>

lemma call_partial_by_keyword:
  assumes "''qry_func'' \<notin> fst ` set kwargs" and "''qry_values'' \<notin> fst ` set kwargs"
  shows "call_partial pd_concat f [] ((''qry_values'', qry_values) # kwargs) s =
           iterate_prov_query pd_concat f qry_values kwargs s"
proof -
  from assms(1) have "map_of kwargs ''qry_func'' = None"
    by (simp add: map_of_eq_None_iff)
  moreover from assms
  have "filter (\<lambda>(k, v). k \<noteq> ''qry_func'' \<and> k \<noteq> ''qry_values'') kwargs = kwargs"
    by (force simp: filter_id_conv)
  ultimately show ?thesis
    by (simp add: call_partial_def)
qed

lemma call_partial_positional:
  "call_partial pd_concat f (qry_values # args) kwargs s =
     (Inl (TypeError (''_iterate_prov_query() got multiple values for argument '' @
             quoted ''qry_func'')), s)"
  by (simp add: call_partial_def)

text \<open>Each pass through the loop body overwrites both variables: only the last pass shows.\<close>

lemma fold_loop_body:
  "names \<noteq> [] \<Longrightarrow> fold (loop_body prov) names fr = loop_body prov (last names) fr"
proof (induction names arbitrary: fr)
  case Nil
  then show ?case by simp
next
  case (Cons n ns)
  show ?case
  proof (cases "ns = []")
    case True
    then show ?thesis by simp
  next
    case False
    with Cons.IH [of "loop_body prov n fr"] show ?thesis
      by (simp add: loop_body_def)
  qed
qed

lemma provider_loop_empty:
  "qry_entities prov = [] \<Longrightarrow> provider_loop prov = \<lparr> loc_entity = None, loc_qry_func = None \<rparr>"
  by (simp add: provider_loop_def)

lemma provider_loop_nonempty:
  assumes "qry_entities prov \<noteq> []"
  shows "provider_loop prov =
           \<lparr> loc_entity = Some (fst (last (qry_entities prov))),
             loc_qry_func =
               Some (if \<not> multi_query_supported prov
                     then Partial_iterate_prov_query (qry_func prov)
                     else Provider (qry_func prov)) \<rparr>"
proof -
  from assms have ne: "map fst (qry_entities prov) \<noteq> []" by simp
  have "provider_loop prov =
          loop_body prov (last (map fst (qry_entities prov)))
            \<lparr> loc_entity = None, loc_qry_func = None \<rparr>"
    unfolding provider_loop_def by (rule fold_loop_body [OF ne])
  also have "last (map fst (qry_entities prov)) = fst (last (qry_entities prov))"
    using assms by (simp add: last_map)
  finally show ?thesis
    by (simp add: loop_body_def)
qed

text \<open>Every path through \<^verbatim>\<open>register_provider\<close> ends in an exception.\<close>

lemma register_provider_never_returns:
  "\<exists>err. register_provider entities get_close_matches prov = Inl err"
  by (simp add: register_provider_def split: option.split sum.split)

subsection \<open>The three outcomes of resolution\<close>

lemma entity_class_absent:
  "map_of entities entity_name = None \<Longrightarrow>
     entity_class entities get_close_matches entity_name = Inl (AttributeError entity_name)"
  by (simp add: entity_class_def getattr_entities_def)

lemma entity_class_falsy:
  "map_of entities entity_name = Some ent_cls \<Longrightarrow> \<not> py_truth ent_cls \<Longrightarrow>
     entity_class entities get_close_matches entity_name =
       Inl (NameError [entity_name,
              entity_mssg entity_name (dir_entities entities)
                (get_close_matches entity_name (dir_entities entities))])"
  by (simp add: entity_class_def getattr_entities_def Let_def)

lemma dir_entities_names: "set (dir_entities entities) = fst ` set entities"
  by (simp add: dir_entities_def)

lemma dir_entities_distinct: "distinct (dir_entities entities)"
  by (simp add: dir_entities_def)

text \<open>The message, by the number of close matches.\<close>

lemma entity_mssg_no_match:
  "entity_mssg entity_name legal_entities [] =
     entity_name @ '' is not a recognized entity name. '' @
     ''Valid arguments are '' @ join '', '' legal_entities"
  by (simp add: entity_mssg_def)

lemma entity_mssg_one_match:
  "entity_mssg entity_name legal_entities [mtch] =
     entity_name @ '' is not a recognized entity name. '' @
     ''Closest match is '' @ quoted mtch"
  by (simp add: entity_mssg_def)

lemma entity_mssg_several_matches:
  "entity_mssg entity_name legal_entities (m1 # m2 # ms) =
     entity_name @ '' is not a recognized entity name. '' @
     ''Closest matches are '' @ join '', '' (map quoted (m1 # m2 # ms))"
  by (simp add: entity_mssg_def)

subsection \<open>Scalars\<close>

text \<open>\<^verbatim>\<open>_value_to_df\<close> wraps a string, an integer or a float into a one-element list.\<close>

lemma value_to_df_scalar:
  "isinstance_str_int_float qry_val \<Longrightarrow>
     value_to_df pd_DataFrame qry_val = value_to_df pd_DataFrame (PyList [qry_val])"
  by (simp add: value_to_df_def)

section \<open>The claims\<close>

subsection \<open>C1: a resolution failure ends the registration\<close>

text \<open>
  C1 (as amended). \<^verbatim>\<open>register_provider\<close> does not treat a resolution failure per binding:
  when the resolution it performs after its loop, of the entity name then held in
  \<^verbatim>\<open>entity\<close>, fails with an error, the call to \<^verbatim>\<open>register_provider\<close> ends with that same
  error. Nothing catches it, no failure is recorded and no outcome is returned.
\<close>

theorem register_provider_resolution_error_propagates:
  "qry_entities prov \<noteq> [] \<Longrightarrow>
   entity_class entities get_close_matches (fst (last (qry_entities prov))) = Inl err \<Longrightarrow>
   register_provider entities get_close_matches prov = Inl err"
  by (simp add: register_provider_def provider_loop_nonempty)

theorem register_provider_resolution_error_propagates_witness:
  "qry_entities host_bogus_registration \<noteq> [] \<and>
   entity_class example_entities exact_matches
     (fst (last (qry_entities host_bogus_registration))) = Inl (AttributeError ''Bogus'') \<and>
   register_provider example_entities exact_matches host_bogus_registration =
     Inl (AttributeError ''Bogus'')"
proof -
  have ne: "qry_entities host_bogus_registration \<noteq> []"
    by (simp add: host_bogus_registration_def PivotRegistration_init_def)
  have fails: "entity_class example_entities exact_matches
      (fst (last (qry_entities host_bogus_registration))) = Inl (AttributeError ''Bogus'')"
    by (simp add: host_bogus_registration_def PivotRegistration_init_def entity_class_def
        getattr_entities_def example_entities_def)
  from register_provider_resolution_error_propagates [OF ne fails] ne fails
  show ?thesis by simp
qed

text \<open>
  The registration with the bindings \<^verbatim>\<open>{"Host": "hostname", "Bogus": "x"}\<close>: \<^verbatim>\<open>Host\<close>
  resolves, \<^verbatim>\<open>Bogus\<close> does not, and the call as a whole raises the error of \<^verbatim>\<open>Bogus\<close>
  instead of returning an outcome with one attachment and one recorded failure.
\<close>

theorem register_provider_host_bogus_counterexample:
  "entity_class example_entities exact_matches ''Host'' = Inr (PyClass ''Host'') \<and>
   entity_class example_entities exact_matches ''Bogus'' = Inl (AttributeError ''Bogus'') \<and>
   register_provider example_entities exact_matches host_bogus_registration =
     Inl (AttributeError ''Bogus'')"
  by (simp add: register_provider_def provider_loop_def loop_body_def entity_class_def
      getattr_entities_def example_entities_def host_bogus_registration_def
      PivotRegistration_init_def)

subsection \<open>C2: the adapter of line 42 refuses the list of values\<close>

text \<open>
  C2. For the registration of a provider that takes one value at a time, the loop leaves
  the object \<^verbatim>\<open>partial(_iterate_prov_query, qry_func=qry_func)\<close> in \<^verbatim>\<open>qry_func\<close>. Called
  with the list \<^verbatim>\<open>["a", "b", "c"]\<close> as its argument, this adapter raises \<open>TypeError\<close>
  before the body of \<^verbatim>\<open>_iterate_prov_query\<close> runs: the provider is called not three
  times but never, and no table is returned. Only a caller who passes the list as the
  keyword \<^verbatim>\<open>qry_values\<close> gets the three calls, in order, and the three rows.
\<close>

theorem batch_adapter_positional_call_refused:
  "loc_qry_func (provider_loop host_ip_registration) =
     Some (Partial_iterate_prov_query (logging echo_table)) \<and>
   call_partial concat_rows (logging echo_table)
       [PyList [PyStr ''a'', PyStr ''b'', PyStr ''c'']] [] [] =
     (Inl (TypeError (''_iterate_prov_query() got multiple values for argument '' @
             quoted ''qry_func'')), []) \<and>
   call_partial concat_rows (logging echo_table) []
       [(''qry_values'', PyList [PyStr ''a'', PyStr ''b'', PyStr ''c''])] [] =
     (Inr [PyStr ''a'', PyStr ''b'', PyStr ''c''],
      [(PyStr ''a'', []), (PyStr ''b'', []), (PyStr ''c'', [])])"
  by (simp add: provider_loop_def loop_body_def host_ip_registration_def
      PivotRegistration_init_def call_partial_def iterate_prov_query_def logging_def
      echo_table_def concat_rows_def)

subsection \<open>C3: a bare scalar is not wrapped by the batch adapter\<close>

text \<open>
  C3. Only \<^verbatim>\<open>_value_to_df\<close> wraps a scalar, and the adapter never calls it. Given the bare
  string \<^verbatim>\<open>"ab"\<close>, \<^verbatim>\<open>_iterate_prov_query\<close> iterates over its characters and calls the
  provider twice, with \<^verbatim>\<open>"a"\<close> and \<^verbatim>\<open>"b"\<close>; given \<^verbatim>\<open>["ab"]\<close> it calls it once, with
  \<^verbatim>\<open>"ab"\<close>. Given the bare integer 5 it raises \<open>TypeError\<close>; given \<^verbatim>\<open>[5]\<close> it
  returns a table.
\<close>

theorem iterate_prov_query_bare_scalar_not_wrapped:
  "iterate_prov_query concat_rows (logging echo_table) (PyStr ''ab'') [] [] =
     (Inr [PyStr ''a'', PyStr ''b''], [(PyStr ''a'', []), (PyStr ''b'', [])]) \<and>
   iterate_prov_query concat_rows (logging echo_table) (PyList [PyStr ''ab'']) [] [] =
     (Inr [PyStr ''ab''], [(PyStr ''ab'', [])]) \<and>
   iterate_prov_query concat_rows (logging echo_table) (PyInt 5) [] [] =
     (Inl (TypeError (quoted ''int'' @ '' object is not iterable'')), []) \<and>
   iterate_prov_query concat_rows (logging echo_table) (PyList [PyInt 5]) [] [] =
     (Inr [PyInt 5], [(PyInt 5, [])])"
  by (simp add: iterate_prov_query_def logging_def echo_table_def concat_rows_def
      not_iterable_def)

subsection \<open>C4: a name absent from the vocabulary raises AttributeError\<close>

text \<open>
  C4. \<^verbatim>\<open>Bogus\<close> is not among the names of the entities module. Whatever
  \<^verbatim>\<open>get_close_matches\<close> would return, \<^verbatim>\<open>_entity_class("Bogus")\<close> ends in the
  \<open>AttributeError\<close> of \<^verbatim>\<open>getattr\<close>, which is no \<open>NameError\<close> and carries no suggestion.
\<close>

theorem entity_class_absent_name_AttributeError:
  "''Bogus'' \<notin> set (dir_entities example_entities) \<and>
   entity_class example_entities get_close_matches ''Bogus'' = Inl (AttributeError ''Bogus'') \<and>
   \<not> is_NameError (AttributeError ''Bogus'')"
  by (simp add: dir_entities_names entity_class_def getattr_entities_def example_entities_def)

subsection \<open>C5: no message is built for an unknown name\<close>

text \<open>
  C5. \<^verbatim>\<open>Hots\<close>, a near miss of the legal name \<^verbatim>\<open>Host\<close>, is unknown. Whatever
  \<^verbatim>\<open>get_close_matches\<close> would return, \<^verbatim>\<open>_entity_class("Hots")\<close> ends in the
  \<open>AttributeError\<close> of \<^verbatim>\<open>getattr\<close>: the code that builds the message is not reached.
\<close>

theorem entity_class_near_miss_no_message:
  "entity_class example_entities get_close_matches ''Hots'' = Inl (AttributeError ''Hots'')"
  by (simp add: entity_class_def getattr_entities_def example_entities_def)

subsection \<open>C6: nothing is attached\<close>

text \<open>
  C6. For the registration that binds \<^verbatim>\<open>Host\<close> and \<^verbatim>\<open>IpAddress\<close>, both of which resolve,
  \<^verbatim>\<open>register_provider\<close> ends in the \<open>NameError\<close> of the undefined name \<^verbatim>\<open>set_attr\<close>:
  no entity type receives an attachment.
\<close>

theorem register_provider_two_entities_nothing_attached:
  "entity_class example_entities get_close_matches ''Host'' = Inr (PyClass ''Host'') \<and>
   entity_class example_entities get_close_matches ''IpAddress'' = Inr (PyClass ''IpAddress'') \<and>
   register_provider example_entities get_close_matches host_ip_registration =
     Inl set_attr_undefined"
  by (simp add: register_provider_def provider_loop_def loop_body_def entity_class_def
      getattr_entities_def example_entities_def host_ip_registration_def
      PivotRegistration_init_def)

subsection \<open>C7: a batch-capable provider gets no access point\<close>

text \<open>
  C7. For the registration of a batch-capable provider that binds \<^verbatim>\<open>IpAddress\<close>, the loop
  leaves the provider's own function in \<^verbatim>\<open>qry_func\<close>, unwrapped, and then
  \<^verbatim>\<open>register_provider\<close> ends in the \<open>NameError\<close> of the undefined name \<^verbatim>\<open>set_attr\<close>:
  there is no access point to invoke.
\<close>

theorem register_provider_batch_capable_no_access_point:
  "multi_query_supported ip_registration \<and>
   loc_qry_func (provider_loop ip_registration) = Some (Provider (qry_func ip_registration)) \<and>
   register_provider example_entities get_close_matches ip_registration =
     Inl set_attr_undefined"
  by (simp add: register_provider_def provider_loop_def loop_body_def entity_class_def
      getattr_entities_def example_entities_def ip_registration_def
      PivotRegistration_init_def)

subsection \<open>C8: a legal name resolves at once\<close>

text \<open>
  C8. For every entity-type name that matches a name of the entities module exactly, the
  module binding it to a type handle (a class, or any value whose truth value is true),
  \<^verbatim>\<open>_entity_class\<close> returns that handle, and it does so whatever \<^verbatim>\<open>get_close_matches\<close>
  is: the fuzzy matching has no part in the result.
\<close>

theorem entity_class_truthy_exact_match:
  "map_of entities entity_name = Some ent_cls \<Longrightarrow> py_truth ent_cls \<Longrightarrow>
   entity_class entities get_close_matches entity_name = Inr ent_cls"
  by (simp add: entity_class_def getattr_entities_def)

theorem entity_class_truthy_exact_match_witness:
  "map_of example_entities ''Host'' = Some (PyClass ''Host'') \<and> py_truth (PyClass ''Host'') \<and>
   entity_class example_entities exact_matches ''Host'' = Inr (PyClass ''Host'')"
proof -
  have bound: "map_of example_entities ''Host'' = Some (PyClass ''Host'')"
    by (simp add: example_entities_def)
  have truthy: "py_truth (PyClass ''Host'')" by simp
  from entity_class_truthy_exact_match [OF bound truthy] bound truthy
  show ?thesis by simp
qed

subsection \<open>C9: no entities, no bound loop variable\<close>

text \<open>
  C9. For a registration whose \<^verbatim>\<open>qry_entities\<close> is empty the loop body never runs, and
  \<^verbatim>\<open>register_provider\<close> does not return: reading \<^verbatim>\<open>entity\<close> after the loop raises
  \<open>UnboundLocalError\<close>.
\<close>

theorem register_provider_empty_qry_entities:
  "qry_entities prov = [] \<Longrightarrow>
   register_provider entities get_close_matches prov = Inl (UnboundLocalError ''entity'')"
  by (simp add: register_provider_def provider_loop_empty)

theorem register_provider_empty_qry_entities_witness:
  "qry_entities (PivotRegistration_init ''whois'' (logging echo_table) None None None None) = [] \<and>
   register_provider example_entities exact_matches
     (PivotRegistration_init ''whois'' (logging echo_table) None None None None) =
       Inl (UnboundLocalError ''entity'')"
proof -
  have empty:
    "qry_entities (PivotRegistration_init ''whois'' (logging echo_table) None None None None) = []"
    by (simp add: PivotRegistration_init_def)
  from register_provider_empty_qry_entities [OF empty] empty show ?thesis by simp
qed

subsection \<open>C10: batch-capable by default\<close>

text \<open>
  C10. A registration constructed without \<^verbatim>\<open>multi_query_supported\<close>, or with it set to
  \<^verbatim>\<open>True\<close>, is batch-capable, and the loop of \<^verbatim>\<open>register_provider\<close> never leaves a
  \<^verbatim>\<open>partial(_iterate_prov_query, ...)\<close> object in \<^verbatim>\<open>qry_func\<close> for it: only a caller who
  passes \<^verbatim>\<open>False\<close> gets the batch adapter.
\<close>

theorem default_multi_query_supported_not_wrapped:
  "multi \<noteq> Some False \<Longrightarrow>
   multi_query_supported (PivotRegistration_init name func cls sch ents multi) \<and>
   loc_qry_func (provider_loop (PivotRegistration_init name func cls sch ents multi)) \<noteq>
     Some (Partial_iterate_prov_query g)"
proof -
  assume "multi \<noteq> Some False"
  then have flag: "multi_query_supported (PivotRegistration_init name func cls sch ents multi)"
    by (cases multi) (simp_all add: PivotRegistration_init_def)
  show ?thesis
  proof (cases "qry_entities (PivotRegistration_init name func cls sch ents multi) = []")
    case True
    with flag show ?thesis by (simp add: provider_loop_empty)
  next
    case False
    with flag show ?thesis by (simp add: provider_loop_nonempty)
  qed
qed

theorem default_multi_query_supported_not_wrapped_witness:
  "(None :: bool option) \<noteq> Some False \<and>
   multi_query_supported
     (PivotRegistration_init ''whois'' (logging echo_table) None None
        (Some [(''Host'', KwName ''hostname'')]) None) \<and>
   loc_qry_func (provider_loop
     (PivotRegistration_init ''whois'' (logging echo_table) None None
        (Some [(''Host'', KwName ''hostname'')]) None)) \<noteq>
     Some (Partial_iterate_prov_query (logging echo_table))"
proof -
  have unset: "(None :: bool option) \<noteq> Some False" by simp
  from default_multi_query_supported_not_wrapped [OF unset] unset show ?thesis by simp
qed

end
